theory Spec2Isabelle
  imports Main "HOL-Library.Sublist"
begin

section \<open>Routing: session keys, channel kinds, admission\<close>

text \<open>
  A JavaScript string is modelled as a \<^typ>\<open>string\<close>; one \<^typ>\<open>char\<close> stands for one
  code unit, which is what \<^verbatim>\<open>length\<close> and \<^verbatim>\<open>substring\<close> count. Optional
  fields of the TypeScript interfaces are \<^typ>\<open>'a option\<close>.
\<close>

record post =
  post_id :: string
  user_id :: string
  channel_id :: string
  root_id :: string
  message :: string
  post_type :: string

datatype dm_policy = DmOpen | Pairing | Closed

datatype group_policy = Allowlist | GroupOpen | Disabled

datatype reply_mode = Off | Thread | AlwaysThread

record channel_config =
  allow :: "bool option"
  requireMention :: "bool option"

record mattermost_config =
  dmPolicy :: "dm_policy option"
  groupPolicy :: "group_policy option"
  channels :: "(string \<rightharpoonup> channel_config) option"
  replyToMode :: "reply_mode option"

text \<open>The module-level variables of the plugin that the event handler reads.\<close>

record plugin_state =
  ctx_set :: bool
  client_set :: bool
  config :: mattermost_config
  botUserId :: string
  botUsername :: string

definition MM_MSG_LIMIT :: nat where
  "MM_MSG_LIMIT = 16383"

definition buildSessionKey :: "string \<Rightarrow> bool \<Rightarrow> string" where
  "buildSessionKey channelId isDM =
     (if isDM then ''mattermost-dm-'' @ channelId else ''mattermost-channel-'' @ channelId)"

definition isDMChannel :: "string \<Rightarrow> bool" where
  "isDMChannel channelType \<longleftrightarrow> channelType = ''D'' \<or> channelType = ''G''"

text \<open>
  \<^verbatim>\<open>config.channels[post.channel_id]\<close> reads a property of a plain object: it finds the
  table's own entry for the channel id and, when there is none, the member of that name
  which every plain object inherits from \<^verbatim>\<open>Object.prototype\<close>. The inherited members
  are functions, or the prototype object itself under the name \<^verbatim>\<open>__proto__\<close>: such a
  value is truthy and has neither \<^verbatim>\<open>allow\<close> nor \<^verbatim>\<open>requireMention\<close>.
\<close>

definition objectPrototypeMembers :: "string list" where
  "objectPrototypeMembers =
     [''constructor'', ''__defineGetter__'', ''__defineSetter__'', ''hasOwnProperty'',
      ''__lookupGetter__'', ''__lookupSetter__'', ''isPrototypeOf'', ''propertyIsEnumerable'',
      ''toString'', ''valueOf'', ''__proto__'', ''toLocaleString'']"

datatype channel_lookup = NoMember | OwnEntry channel_config | InheritedMember

definition lookupChannel :: "(string \<rightharpoonup> channel_config) \<Rightarrow> string \<Rightarrow> channel_lookup" where
  "lookupChannel tbl channelId =
     (case tbl channelId of
        Some channelConfig \<Rightarrow> OwnEntry channelConfig
      | None \<Rightarrow> if channelId \<in> set objectPrototypeMembers then InheritedMember else NoMember)"

text \<open>\<^verbatim>\<open>shouldRespond\<close> returns a boolean: the source has two verdicts, not three.\<close>

definition shouldRespond :: "plugin_state \<Rightarrow> post \<Rightarrow> string \<Rightarrow> bool \<Rightarrow> bool" where
  "shouldRespond st p channelType botMentioned =
     (if user_id p = botUserId st then False
      else if post_type p \<noteq> [] then False
      else if isDMChannel channelType then
        (let policy = (case dmPolicy (config st) of None \<Rightarrow> Pairing | Some q \<Rightarrow> q)
         in if policy = Closed then False else True)
      else
        (let policy = (case groupPolicy (config st) of None \<Rightarrow> GroupOpen | Some q \<Rightarrow> q)
         in if policy = Disabled then False
            else if policy = GroupOpen then botMentioned
            else (case channels (config st) of
                    Some tbl \<Rightarrow>
                      (case lookupChannel tbl (channel_id p) of
                         NoMember \<Rightarrow> False
                       | OwnEntry channelConfig \<Rightarrow>
                           if allow channelConfig = Some False then False
                           else if requireMention channelConfig = Some True then botMentioned
                           else True
                       | InheritedMember \<Rightarrow> True)
                  | None \<Rightarrow> False)))"

text \<open>
  The truncation of the reply, the expression bound to \<^verbatim>\<open>finalText\<close> in
  \<^verbatim>\<open>handlePostedEvent\<close>.
\<close>

definition finalText :: "string \<Rightarrow> string" where
  "finalText response =
     (if length response > MM_MSG_LIMIT
      then take (MM_MSG_LIMIT - 3) response @ ''...''
      else response)"


section \<open>The event handler of the plugin\<close>

text \<open>
  Collaborators are functions of the environment; a call that throws (a rejected promise
  under \<^verbatim>\<open>await\<close>) returns \<open>Inl\<close>. The handler's model returns the outbound calls
  it made, in order, and whether an exception left it.
\<close>

datatype error = Error string

datatype call =
    GetChannel string
  | GetUser string
  | LogMessage string string string string
  | CreatePost string string "string option"
  | Inject string string string string
  | UpdatePost string string
  | LoggerError string

text \<open>
  \<^verbatim>\<open>LogMessage\<close> and \<^verbatim>\<open>Inject\<close> carry the session key, the text, the
  \<^verbatim>\<open>from\<close> name and the channel id. \<^verbatim>\<open>updatePost\<close> takes the number of edits
  already requested in this run, so that a second edit may succeed where the first failed.
  \<^verbatim>\<open>stripMention u m\<close> stands for
  \<^verbatim>\<open>m.replace(new RegExp(`@${u}\\s*`, "gi"), "").trim()\<close>: the regular-expression engine
  is not part of the repository. \<^verbatim>\<open>parsePost\<close> is \<^verbatim>\<open>JSON.parse\<close> at the type the
  source casts its result to.
\<close>

record env =
  parsePost :: "string \<Rightarrow> error + post"
  getChannel :: "string \<Rightarrow> error + string"
  getUser :: "string \<Rightarrow> error + string"
  logMessage :: "(string \<Rightarrow> string \<Rightarrow> string \<Rightarrow> string \<Rightarrow> error + unit) option"
  createPost :: "string \<Rightarrow> string \<Rightarrow> string option \<Rightarrow> error + post"
  inject :: "string \<Rightarrow> string \<Rightarrow> string \<Rightarrow> string \<Rightarrow> error + string"
  updatePost :: "nat \<Rightarrow> string \<Rightarrow> string \<Rightarrow> error + post"
  stripMention :: "string \<Rightarrow> string \<Rightarrow> string"

datatype post_payload = PostString string | PostObject post

record ws_event =
  event :: string
  data_post :: "post_payload option"
  data_channel_type :: "string option"

definition str_includes :: "string \<Rightarrow> string \<Rightarrow> bool" where
  "str_includes s searchString \<longleftrightarrow> sublist searchString s"

definition botMentioned :: "string \<Rightarrow> string \<Rightarrow> bool" where
  "botMentioned username body =
     (if username \<noteq> [] then str_includes body (CHR ''@'' # username) else False)"

definition messageText :: "env \<Rightarrow> string \<Rightarrow> string \<Rightarrow> string" where
  "messageText en username body =
     (if username \<noteq> [] then stripMention en username body else body)"

definition rootId :: "mattermost_config \<Rightarrow> post \<Rightarrow> string option" where
  "rootId cfg p =
     (let mode = (case replyToMode cfg of None \<Rightarrow> Thread | Some m \<Rightarrow> m)
      in if mode = AlwaysThread then Some (if root_id p \<noteq> [] then root_id p else post_id p)
         else if mode = Thread \<and> root_id p \<noteq> [] then Some (root_id p)
         else None)"

definition eventPost :: "env \<Rightarrow> ws_event \<Rightarrow> post option" where
  "eventPost en ev =
     (case data_post ev of
        None \<Rightarrow> None
      | Some (PostString s) \<Rightarrow>
          (if s = [] then None
           else (case parsePost en s of Inl _ \<Rightarrow> None | Inr p \<Rightarrow> Some p))
      | Some (PostObject p) \<Rightarrow> Some p)"

definition channelTypeOf :: "env \<Rightarrow> ws_event \<Rightarrow> post \<Rightarrow> call list \<times> string" where
  "channelTypeOf en ev p =
     (let channelType = (case data_channel_type ev of None \<Rightarrow> [] | Some t \<Rightarrow> t)
      in if channelType = []
         then ([GetChannel (channel_id p)],
               (case getChannel en (channel_id p) of Inl _ \<Rightarrow> ''O'' | Inr t \<Rightarrow> t))
         else ([], channelType))"

text \<open>The branch taken when \<^verbatim>\<open>shouldRespond\<close> is false.\<close>

definition logForContext :: "env \<Rightarrow> post \<Rightarrow> string \<Rightarrow> call list" where
  "logForContext en p channelType =
     (let isDM = isDMChannel channelType;
          sessionKey = buildSessionKey (channel_id p) isDM
      in case getUser en (user_id p) of
           Inl _ \<Rightarrow> [GetUser (user_id p)]
         | Inr username \<Rightarrow>
             (case logMessage en of
                None \<Rightarrow> [GetUser (user_id p)]
              | Some f \<Rightarrow>
                  (case f sessionKey (message p) username (channel_id p) of
                     Inl _ \<Rightarrow>
                       [GetUser (user_id p),
                        LogMessage sessionKey (message p) username (channel_id p)]
                   | Inr _ \<Rightarrow>
                       [GetUser (user_id p),
                        LogMessage sessionKey (message p) username (channel_id p)])))"

definition senderUsername :: "env \<Rightarrow> post \<Rightarrow> string" where
  "senderUsername en p = (case getUser en (user_id p) of Inl _ \<Rightarrow> user_id p | Inr u \<Rightarrow> u)"

definition thinkingText :: string where
  "thinkingText = ''_Thinking..._''"

definition errorNotice :: string where
  "errorNotice = ''Error processing your request. Please try again.''"

text \<open>
  The last \<^verbatim>\<open>try\<close> block of \<^verbatim>\<open>handlePostedEvent\<close>: inject, then edit the
  placeholder; the \<^verbatim>\<open>catch\<close> clause receives the error of either call.
\<close>

definition onInjectFailed :: "env \<Rightarrow> nat \<Rightarrow> string \<Rightarrow> call list \<times> (error + unit)" where
  "onInjectFailed en edits thinkingId =
     (case updatePost en edits thinkingId errorNotice of
        Inl _ \<Rightarrow> ([LoggerError ''Inject failed:'', UpdatePost thinkingId errorNotice], Inr ())
      | Inr _ \<Rightarrow> ([LoggerError ''Inject failed:'', UpdatePost thinkingId errorNotice], Inr ()))"

definition injectAndFinalize ::
  "env \<Rightarrow> string \<Rightarrow> string \<Rightarrow> string \<Rightarrow> string \<Rightarrow> string \<Rightarrow> call list \<times> (error + unit)" where
  "injectAndFinalize en thinkingId sessionKey text sender channelId =
     (case inject en sessionKey text sender channelId of
        Inl _ \<Rightarrow>
          (let (cs, r) = onInjectFailed en 0 thinkingId
           in (Inject sessionKey text sender channelId # cs, r))
      | Inr response \<Rightarrow>
          (case updatePost en 0 thinkingId (finalText response) of
             Inl _ \<Rightarrow>
               (let (cs, r) = onInjectFailed en 1 thinkingId
                in (Inject sessionKey text sender channelId
                      # UpdatePost thinkingId (finalText response) # cs, r))
           | Inr _ \<Rightarrow>
               ([Inject sessionKey text sender channelId,
                 UpdatePost thinkingId (finalText response)], Inr ())))"

definition respond :: "plugin_state \<Rightarrow> env \<Rightarrow> post \<Rightarrow> string \<Rightarrow> call list \<times> (error + unit)" where
  "respond st en p channelType =
     (let isDM = isDMChannel channelType;
          sessionKey = buildSessionKey (channel_id p) isDM;
          sender = senderUsername en p;
          text = messageText en (botUsername st) (message p);
          rid = rootId (config st) p
      in case createPost en (channel_id p) thinkingText rid of
           Inl _ \<Rightarrow>
             ([GetUser (user_id p), CreatePost (channel_id p) thinkingText rid,
               LoggerError ''Failed to post thinking message:''], Inr ())
         | Inr thinkingPost \<Rightarrow>
             (let (cs, r) =
                    injectAndFinalize en (post_id thinkingPost) sessionKey text sender
                      (channel_id p)
              in (GetUser (user_id p) # CreatePost (channel_id p) thinkingText rid # cs, r)))"

definition handlePostedEvent ::
  "plugin_state \<Rightarrow> env \<Rightarrow> ws_event \<Rightarrow> call list \<times> (error + unit)" where
  "handlePostedEvent st en ev =
     (if \<not> ctx_set st \<or> \<not> client_set st then ([], Inr ())
      else case eventPost en ev of
             None \<Rightarrow> ([], Inr ())
           | Some p \<Rightarrow>
               (let (cs0, channelType) = channelTypeOf en ev p;
                    mentioned = botMentioned (botUsername st) (message p)
                in if \<not> shouldRespond st p channelType mentioned
                   then (cs0 @ logForContext en p channelType, Inr ())
                   else (let (cs, r) = respond st en p channelType in (cs0 @ cs, r))))"

definition handleWsEvent ::
  "plugin_state \<Rightarrow> env \<Rightarrow> ws_event \<Rightarrow> call list \<times> (error + unit)" where
  "handleWsEvent st en ev =
     (if event ev = ''posted''
      then (case handlePostedEvent st en ev of
              (cs, Inl _) \<Rightarrow> (cs @ [LoggerError ''Error handling posted event:''], Inr ())
            | (cs, Inr u) \<Rightarrow> (cs, Inr u))
      else ([], Inr ()))"

section \<open>The transport client: listeners\<close>

text \<open>
  A listener is a function that may throw; its number stands for the identity of the
  function object, which is what the unsubscribe closure compares.
  \<^verbatim>\<open>onMessage\<close> is the handler of the socket's \<^verbatim>\<open>message\<close> event; it returns the
  listeners it invoked, in order.
\<close>

type_synonym 'e listener = "'e \<Rightarrow> error + unit"

fun callListeners :: "(nat \<times> 'e listener) list \<Rightarrow> 'e \<Rightarrow> nat list \<times> (error + unit)" where
  "callListeners [] ev = ([], Inr ())"
| "callListeners ((i, handler) # hs) ev =
     (case handler ev of
        Inl e \<Rightarrow> ([i], Inl e)
      | Inr _ \<Rightarrow> (let (invoked, r) = callListeners hs ev in (i # invoked, r)))"

definition onMessage ::
  "(string \<Rightarrow> error + 'e) \<Rightarrow> (nat \<times> 'e listener) list \<Rightarrow> string \<Rightarrow> nat list \<times> (error + unit)" where
  "onMessage parse wsListeners raw =
     (case parse raw of
        Inl _ \<Rightarrow> ([], Inr ())
      | Inr ev \<Rightarrow>
          (case callListeners wsListeners ev of
             (invoked, Inl _) \<Rightarrow> (invoked, Inr ())
           | (invoked, Inr u) \<Rightarrow> (invoked, Inr u)))"

definition throws :: "'e \<Rightarrow> nat \<times> 'e listener \<Rightarrow> bool" where
  "throws ev l \<longleftrightarrow> isl (snd l ev)"

section \<open>The transport client: connection life cycle\<close>

text \<open>
  The fields of \<^verbatim>\<open>MattermostClient\<close> that the WebSocket methods use, together with
  what they act on: every socket constructed so far and every timer requested so far. A
  socket or timer is identified by its position in its list. Of a socket the model keeps
  whether it has emitted \<^verbatim>\<open>open\<close>, whether it has emitted \<^verbatim>\<open>close\<close>, whether
  \<^verbatim>\<open>close()\<close> was called on it, and how many authentication frames were sent on it.
\<close>

record sock =
  open_fired :: bool
  close_fired :: bool
  close_called :: bool
  frames_sent :: nat

datatype timer_status = Pending | Fired | Cancelled

record client =
  ws :: "nat option"
  reconnectTimer :: "nat option"
  reconnectAttempts :: nat
  shouldReconnect :: bool
  sockets :: "sock list"
  timers :: "(nat \<times> timer_status) list"

definition maxReconnectAttempts :: nat where
  "maxReconnectAttempts = 10"

definition reconnectBaseDelay :: nat where
  "reconnectBaseDelay = 1000"

definition newClient :: client where
  "newClient = \<lparr>ws = None, reconnectTimer = None, reconnectAttempts = 0,
     shouldReconnect = True, sockets = [], timers = []\<rparr>"

definition newSocket :: sock where
  "newSocket = \<lparr>open_fired = False, close_fired = False, close_called = False,
     frames_sent = 0\<rparr>"

definition upd_at :: "nat \<Rightarrow> ('a \<Rightarrow> 'a) \<Rightarrow> 'a list \<Rightarrow> 'a list" where
  "upd_at i f xs = (if i < length xs then xs[i := f (xs ! i)] else xs)"

definition doConnect :: "client \<Rightarrow> client" where
  "doConnect c = c\<lparr>ws := Some (length (sockets c)), sockets := sockets c @ [newSocket]\<rparr>"

definition connectWebSocket :: "client \<Rightarrow> client" where
  "connectWebSocket c = doConnect (c\<lparr>shouldReconnect := True\<rparr>)"

definition scheduleReconnect :: "client \<Rightarrow> client" where
  "scheduleReconnect c =
     (if reconnectAttempts c \<ge> maxReconnectAttempts then c
      else (let delay = reconnectBaseDelay * 2 ^ reconnectAttempts c
            in c\<lparr>reconnectAttempts := reconnectAttempts c + 1,
                 reconnectTimer := Some (length (timers c)),
                 timers := timers c @ [(delay, Pending)]\<rparr>))"

text \<open>
  The \<^verbatim>\<open>open\<close> handler sends on \<^verbatim>\<open>this.ws\<close>, the socket stored at that moment.
  \<^verbatim>\<open>sendOk\<close> tells whether that \<^verbatim>\<open>send\<close> returned; when it throws, the statement
  after it is not reached.
\<close>

definition onOpen :: "bool \<Rightarrow> client \<Rightarrow> client" where
  "onOpen sendOk c =
     (case ws c of
        None \<Rightarrow> c\<lparr>reconnectAttempts := 0\<rparr>
      | Some j \<Rightarrow>
          if sendOk
          then c\<lparr>sockets := upd_at j (\<lambda>s. s\<lparr>frames_sent := frames_sent s + 1\<rparr>) (sockets c),
                 reconnectAttempts := 0\<rparr>
          else c)"

definition onClose :: "client \<Rightarrow> client" where
  "onClose c = (if shouldReconnect c then scheduleReconnect c else c)"

definition clearTimeout :: "nat \<Rightarrow> client \<Rightarrow> client" where
  "clearTimeout t c =
     c\<lparr>timers := upd_at t (\<lambda>(d, s). (d, if s = Pending then Cancelled else s)) (timers c)\<rparr>"

definition disconnectWebSocket :: "client \<Rightarrow> client" where
  "disconnectWebSocket c =
     (let c1 = c\<lparr>shouldReconnect := False\<rparr>;
          c2 = (case reconnectTimer c1 of
                  Some t \<Rightarrow> (clearTimeout t c1)\<lparr>reconnectTimer := None\<rparr>
                | None \<Rightarrow> c1);
          c3 = (case ws c2 of
                  Some i \<Rightarrow>
                    c2\<lparr>sockets := upd_at i (\<lambda>s. s\<lparr>close_called := True\<rparr>) (sockets c2),
                        ws := None\<rparr>
                | None \<Rightarrow> c2)
      in c3)"

text \<open>
  What can happen to a client: a call of one of its two public methods, an event of one of
  its sockets, or a timer running out. An event is possible only for a socket that exists
  and has not emitted it (nor \<^verbatim>\<open>close\<close>) yet, a timer runs out only while pending;
  \<^verbatim>\<open>step\<close> returns \<open>None\<close> otherwise.
\<close>

datatype client_event =
    Connect
  | Disconnect
  | SockOpen nat bool
  | SockClose nat
  | SockError nat
  | TimerFire nat

fun step :: "client_event \<Rightarrow> client \<Rightarrow> client option" where
  "step Connect c = Some (connectWebSocket c)"
| "step Disconnect c = Some (disconnectWebSocket c)"
| "step (SockOpen i sendOk) c =
     (if i < length (sockets c) \<and> \<not> open_fired (sockets c ! i) \<and> \<not> close_fired (sockets c ! i)
      then Some (onOpen sendOk (c\<lparr>sockets := upd_at i (\<lambda>s. s\<lparr>open_fired := True\<rparr>) (sockets c)\<rparr>))
      else None)"
| "step (SockClose i) c =
     (if i < length (sockets c) \<and> \<not> close_fired (sockets c ! i)
      then Some (onClose (c\<lparr>sockets := upd_at i (\<lambda>s. s\<lparr>close_fired := True\<rparr>) (sockets c)\<rparr>))
      else None)"
| "step (SockError i) c =
     (if i < length (sockets c) \<and> \<not> close_fired (sockets c ! i) then Some c else None)"
| "step (TimerFire t) c =
     (if t < length (timers c) \<and> snd (timers c ! t) = Pending
      then Some (doConnect (c\<lparr>timers := upd_at t (\<lambda>(d, s). (d, Fired)) (timers c)\<rparr>))
      else None)"

fun run :: "client_event list \<Rightarrow> client \<Rightarrow> client option" where
  "run [] c = Some c"
| "run (e # es) c = (case step e c of None \<Rightarrow> None | Some c' \<Rightarrow> run es c')"

fun isSockClose :: "client_event \<Rightarrow> bool" where
  "isSockClose (SockClose i) = True"
| "isSockClose e = False"

fun isCloseOrTimer :: "client_event \<Rightarrow> bool" where
  "isCloseOrTimer (SockClose i) = True"
| "isCloseOrTimer (SockError i) = True"
| "isCloseOrTimer (TimerFire t) = True"
| "isCloseOrTimer e = False"

definition delaysSince :: "client \<Rightarrow> client \<Rightarrow> nat list" where
  "delaysSince c c' = map fst (drop (length (timers c)) (timers c'))"

text \<open>A client is quiet when its reconnect flag is cleared and none of its timers is pending.\<close>

definition quiet :: "client \<Rightarrow> bool" where
  "quiet c \<longleftrightarrow>
     \<not> shouldReconnect c \<and> (\<forall>t < length (timers c). snd (timers c ! t) \<noteq> Pending)"

fun isConnect :: "client_event \<Rightarrow> bool" where
  "isConnect Connect = True"
| "isConnect e = False"

section \<open>Concrete inputs\<close>

text \<open>Posts, configurations, collaborators and event sequences used to run the model.\<close>

fun isReplyCall :: "call \<Rightarrow> bool" where
  "isReplyCall (CreatePost c t r) = True"
| "isReplyCall (Inject k t f c) = True"
| "isReplyCall (UpdatePost i t) = True"
| "isReplyCall c = False"

definition examplePost :: "string \<Rightarrow> string \<Rightarrow> string \<Rightarrow> post" where
  "examplePost sender channel body =
     \<lparr>post_id = ''post1'', user_id = sender, channel_id = channel, root_id = [],
      message = body, post_type = []\<rparr>"

definition exampleTable :: "string \<rightharpoonup> channel_config" where
  "exampleTable =
     [''chan1'' \<mapsto> \<lparr>allow = Some True, requireMention = Some True\<rparr>,
      ''chan2'' \<mapsto> \<lparr>allow = Some False, requireMention = None\<rparr>,
      ''chan3'' \<mapsto> \<lparr>allow = None, requireMention = None\<rparr>]"

definition exampleConfig ::
  "group_policy option \<Rightarrow> (string \<rightharpoonup> channel_config) option \<Rightarrow> mattermost_config" where
  "exampleConfig gp tbl =
     \<lparr>dmPolicy = None, groupPolicy = gp, channels = tbl, replyToMode = None\<rparr>"

definition exampleState :: "string \<Rightarrow> mattermost_config \<Rightarrow> plugin_state" where
  "exampleState username cfg =
     \<lparr>ctx_set = True, client_set = True, config = cfg, botUserId = ''bot1'',
      botUsername = username\<rparr>"

definition exampleEnv :: "bool \<Rightarrow> bool \<Rightarrow> env" where
  "exampleEnv injectOk updateOk =
     \<lparr>parsePost = (\<lambda>s. Inl (Error ''SyntaxError'')),
      getChannel = (\<lambda>c. Inr ''O''),
      getUser = (\<lambda>u. Inr (if u = ''bot1'' then ''wopr-bot'' else ''alice'')),
      logMessage = Some (\<lambda>k m f c. Inr ()),
      createPost = (\<lambda>c t r. Inr \<lparr>post_id = ''reply1'', user_id = ''bot1'', channel_id = c,
                                root_id = [], message = t, post_type = []\<rparr>),
      inject = (\<lambda>k t f c. if injectOk then Inr ''AI response'' else Inl (Error ''inject rejected'')),
      updatePost = (\<lambda>n i t. if updateOk
                      then Inr \<lparr>post_id = i, user_id = ''bot1'', channel_id = [],
                                root_id = [], message = t, post_type = []\<rparr>
                      else Inl (Error ''update failed'')),
      stripMention = (\<lambda>u m. m)\<rparr>"

text \<open>Collaborators that all succeed, with an AI response one code unit over the limit.\<close>

definition longReplyEnv :: env where
  "longReplyEnv = (exampleEnv True True)\<lparr>inject := (\<lambda>k t f c. Inr (replicate 16384 CHR ''a''))\<rparr>"

definition exampleEvent :: "post \<Rightarrow> string \<Rightarrow> ws_event" where
  "exampleEvent p channelType =
     \<lparr>event = ''posted'', data_post = Some (PostObject p), data_channel_type = Some channelType\<rparr>"

definition exampleParse :: "string \<Rightarrow> error + string" where
  "exampleParse raw = (if raw = [] then Inl (Error ''SyntaxError'') else Inr raw)"

definition throwingListener :: "string listener" where
  "throwingListener ev = Inl (Error ''listener failed'')"

definition quietListener :: "string listener" where
  "quietListener ev = Inr ()"

text \<open>The client after \<^verbatim>\<open>connectWebSocket()\<close> and the \<^verbatim>\<open>open\<close> event of its socket.\<close>

definition openedClient :: client where
  "openedClient = \<lparr>ws = Some 0, reconnectTimer = None, reconnectAttempts = 0,
     shouldReconnect = True,
     sockets = [\<lparr>open_fired = True, close_fired = False, close_called = False, frames_sent = 1\<rparr>],
     timers = []\<rparr>"

text \<open>
  Eleven closes in a row: each socket closes without opening, each timer but the last
  brings the next socket.
\<close>

definition elevenCloses :: "client_event list" where
  "elevenCloses =
     [SockClose 0, TimerFire 0, SockClose 1, TimerFire 1, SockClose 2, TimerFire 2,
      SockClose 3, TimerFire 3, SockClose 4, TimerFire 4, SockClose 5, TimerFire 5,
      SockClose 6, TimerFire 6, SockClose 7, TimerFire 7, SockClose 8, TimerFire 8,
      SockClose 9, TimerFire 9, SockClose 10]"

lemmas ex_defs = examplePost_def exampleTable_def exampleConfig_def exampleState_def
  exampleEnv_def exampleEvent_def

section \<open>Session keys\<close>

text \<open>
  C8. The session key is a function of the pair (channel id, DM flag) and it is injective
  in that pair: two keys are equal exactly when the channel ids are equal and the flags are
  equal. So different channel ids give different keys under either flag, and a DM key never
  equals a channel key, whatever the two channel ids are.
\<close>

theorem buildSessionKey_injective:
  "(buildSessionKey c d = buildSessionKey c' d' \<longleftrightarrow> c = c' \<and> d = d')
   \<and> buildSessionKey c True \<noteq> buildSessionKey c' False"
  by (auto simp: buildSessionKey_def)

section \<open>Admission\<close>

lemma shouldRespond_own: "user_id p = botUserId st \<Longrightarrow> \<not> shouldRespond st p ct m"
  by (simp add: shouldRespond_def)

lemma logForContext_no_reply: "filter isReplyCall (logForContext en p ct) = []"
  by (simp add: logForContext_def Let_def split: sum.splits option.splits)

lemma channelTypeOf_no_reply: "filter isReplyCall (fst (channelTypeOf en ev p)) = []"
  by (simp add: channelTypeOf_def Let_def)

lemma handlePostedEvent_not_admitted:
  assumes "eventPost en ev = Some p"
    and "\<not> shouldRespond st p (snd (channelTypeOf en ev p)) (botMentioned (botUsername st) (message p))"
  shows "handlePostedEvent st en ev =
     (if \<not> ctx_set st \<or> \<not> client_set st then ([], Inr ())
      else (fst (channelTypeOf en ev p) @ logForContext en p (snd (channelTypeOf en ev p)), Inr ()))"
  using assms by (simp add: handlePostedEvent_def case_prod_beta)

lemma logForContext_logged:
  assumes "getUser en (user_id p) = Inr u" and "logMessage en = Some f"
  shows "logForContext en p ct =
     [GetUser (user_id p),
      LogMessage (buildSessionKey (channel_id p) (isDMChannel ct)) (message p) u (channel_id p)]"
  using assms by (simp add: logForContext_def Let_def split: sum.splits)

text \<open>
  C6, as the source has it. Under group policy \<^verbatim>\<open>allowlist\<close>, for a post in a channel
  that is not a DM, from a sender other than the bot and with an empty type tag: without a
  channel table the verdict is negative for every channel; with a table, it is negative
  when the channel has no entry of its own and its id is not the name of a member inherited
  from \<^verbatim>\<open>Object.prototype\<close>, and when its own entry has \<^verbatim>\<open>allow = false\<close>; when
  the own entry requires a mention the verdict is positive exactly when the bot is
  mentioned; for any other own entry it is positive. The negative verdict is not silent:
  the handler makes no reply, looks up the sender and, when that lookup succeeds and the
  log collaborator is there, records the post in the session history. Nothing is said here
  of a channel id without own entry that names an inherited member.
\<close>

theorem shouldRespond_allowlist:
  assumes "groupPolicy (config st) = Some Allowlist" and "\<not> isDMChannel ct"
    and "user_id p \<noteq> botUserId st" and "post_type p = []"
  shows "(channels (config st) = None \<longrightarrow> \<not> shouldRespond st p ct m)
       \<and> (\<forall>tbl. channels (config st) = Some tbl \<longrightarrow>
            (tbl (channel_id p) = None \<and> channel_id p \<notin> set objectPrototypeMembers \<longrightarrow>
               \<not> shouldRespond st p ct m)
          \<and> (\<forall>cc. tbl (channel_id p) = Some cc \<longrightarrow>
                (allow cc = Some False \<longrightarrow> \<not> shouldRespond st p ct m)
              \<and> (allow cc \<noteq> Some False \<and> requireMention cc = Some True \<longrightarrow>
                   shouldRespond st p ct m = m)
              \<and> (allow cc \<noteq> Some False \<and> requireMention cc \<noteq> Some True \<longrightarrow>
                   shouldRespond st p ct m)))
       \<and> (ctx_set st \<and> client_set st \<and> eventPost en ev = Some p
            \<and> channelTypeOf en ev p = (pre, ct)
            \<and> \<not> shouldRespond st p ct (botMentioned (botUsername st) (message p))
            \<and> getUser en (user_id p) = Inr u \<and> logMessage en = Some f \<longrightarrow>
          handlePostedEvent st en ev =
            (pre @ [GetUser (user_id p),
                    LogMessage (buildSessionKey (channel_id p) (isDMChannel ct)) (message p) u
                      (channel_id p)],
             Inr ()))"
proof -
  have table: "(channels (config st) = None \<longrightarrow> \<not> shouldRespond st p ct m)
       \<and> (\<forall>tbl. channels (config st) = Some tbl \<longrightarrow>
            (tbl (channel_id p) = None \<and> channel_id p \<notin> set objectPrototypeMembers \<longrightarrow>
               \<not> shouldRespond st p ct m)
          \<and> (\<forall>cc. tbl (channel_id p) = Some cc \<longrightarrow>
                (allow cc = Some False \<longrightarrow> \<not> shouldRespond st p ct m)
              \<and> (allow cc \<noteq> Some False \<and> requireMention cc = Some True \<longrightarrow>
                   shouldRespond st p ct m = m)
              \<and> (allow cc \<noteq> Some False \<and> requireMention cc \<noteq> Some True \<longrightarrow>
                   shouldRespond st p ct m)))"
    using assms by (simp add: shouldRespond_def lookupChannel_def)
  have logged: "handlePostedEvent st en ev =
            (pre @ [GetUser (user_id p),
                    LogMessage (buildSessionKey (channel_id p) (isDMChannel ct)) (message p) u
                      (channel_id p)],
             Inr ())"
    if "ctx_set st" and "client_set st" and "eventPost en ev = Some p"
      and "channelTypeOf en ev p = (pre, ct)"
      and "\<not> shouldRespond st p ct (botMentioned (botUsername st) (message p))"
      and "getUser en (user_id p) = Inr u" and "logMessage en = Some f"
    using that handlePostedEvent_not_admitted [of en ev p st] logForContext_logged [of en p u f ct]
    by simp
  from table logged show ?thesis by blast
qed

text \<open>
  C6 as stated fails twice. A channel named like an inherited member has no entry in the
  table and the bot is not mentioned, yet the verdict is positive. And a post in a denied
  channel is not ignored: the handler records it in the session history.
\<close>

theorem allowlist_inherited_member_and_log:
  "exampleTable ''constructor'' = None
   \<and> shouldRespond (exampleState ''wopr-bot'' (exampleConfig (Some Allowlist) (Some exampleTable)))
       (examplePost ''user1'' ''constructor'' ''hello'') ''O'' False
   \<and> handlePostedEvent (exampleState ''wopr-bot'' (exampleConfig (Some Allowlist) (Some exampleTable)))
       (exampleEnv True True) (exampleEvent (examplePost ''user1'' ''chan2'' ''hello'') ''O'') =
     ([GetUser ''user1'', LogMessage ''mattermost-channel-chan2'' ''hello'' ''alice'' ''chan2''],
      Inr ())"
  by (simp add: ex_defs handlePostedEvent_def eventPost_def channelTypeOf_def shouldRespond_def
        lookupChannel_def objectPrototypeMembers_def botMentioned_def str_includes_def
        logForContext_def buildSessionKey_def isDMChannel_def)

text \<open>
  The rows of the table at concrete inputs: no table; a channel without entry; a denied
  channel, whose post is logged; a channel that requires a mention, with and without one;
  an allowed channel.
\<close>

theorem shouldRespond_allowlist_witness:
  "\<not> shouldRespond (exampleState ''wopr-bot'' (exampleConfig (Some Allowlist) None))
       (examplePost ''user1'' ''chan1'' ''hello'') ''O'' True
   \<and> \<not> shouldRespond (exampleState ''wopr-bot'' (exampleConfig (Some Allowlist) (Some exampleTable)))
       (examplePost ''user1'' ''chan9'' ''hello'') ''O'' True
   \<and> \<not> shouldRespond (exampleState ''wopr-bot'' (exampleConfig (Some Allowlist) (Some exampleTable)))
       (examplePost ''user1'' ''chan2'' ''hello'') ''O'' False
   \<and> handlePostedEvent (exampleState ''wopr-bot'' (exampleConfig (Some Allowlist) (Some exampleTable)))
       (exampleEnv True True) (exampleEvent (examplePost ''user1'' ''chan2'' ''hello'') ''O'') =
     ([GetUser ''user1'', LogMessage ''mattermost-channel-chan2'' ''hello'' ''alice'' ''chan2''],
      Inr ())
   \<and> shouldRespond (exampleState ''wopr-bot'' (exampleConfig (Some Allowlist) (Some exampleTable)))
       (examplePost ''user1'' ''chan1'' ''hello'') ''O'' True
   \<and> \<not> shouldRespond (exampleState ''wopr-bot'' (exampleConfig (Some Allowlist) (Some exampleTable)))
       (examplePost ''user1'' ''chan1'' ''hello'') ''O'' False
   \<and> shouldRespond (exampleState ''wopr-bot'' (exampleConfig (Some Allowlist) (Some exampleTable)))
       (examplePost ''user1'' ''chan3'' ''hello'') ''P'' False"
proof -
  let ?none = "exampleState ''wopr-bot'' (exampleConfig (Some Allowlist) None)"
  let ?st = "exampleState ''wopr-bot'' (exampleConfig (Some Allowlist) (Some exampleTable))"
  have a: "\<not> shouldRespond ?none (examplePost ''user1'' ''chan1'' ''hello'') ''O'' True"
    using shouldRespond_allowlist [where st = ?none and p = "examplePost ''user1'' ''chan1'' ''hello''"
        and ct = "''O''" and m = True,
        THEN conjunct1]
    by (simp add: ex_defs isDMChannel_def)
  have b: "\<not> shouldRespond ?st (examplePost ''user1'' ''chan9'' ''hello'') ''O'' True"
    using shouldRespond_allowlist [where st = ?st and p = "examplePost ''user1'' ''chan9'' ''hello''"
        and ct = "''O''" and m = True,
        THEN conjunct2, THEN conjunct1]
    by (simp add: ex_defs isDMChannel_def objectPrototypeMembers_def)
  have c: "\<not> shouldRespond ?st (examplePost ''user1'' ''chan2'' ''hello'') ''O'' False"
    using shouldRespond_allowlist [where st = ?st and p = "examplePost ''user1'' ''chan2'' ''hello''"
        and ct = "''O''" and m = False,
        THEN conjunct2, THEN conjunct1]
    by (simp add: ex_defs isDMChannel_def)
  have m: "botMentioned (botUsername ?st) (message (examplePost ''user1'' ''chan2'' ''hello'')) = False"
    by (simp add: ex_defs botMentioned_def str_includes_def sublist_Cons_right)
  have d: "handlePostedEvent ?st (exampleEnv True True)
       (exampleEvent (examplePost ''user1'' ''chan2'' ''hello'') ''O'') =
     ([GetUser ''user1'', LogMessage ''mattermost-channel-chan2'' ''hello'' ''alice'' ''chan2''],
      Inr ())"
    using shouldRespond_allowlist [where st = ?st and p = "examplePost ''user1'' ''chan2'' ''hello''"
        and ct = "''O''" and en = "exampleEnv True True"
        and ev = "exampleEvent (examplePost ''user1'' ''chan2'' ''hello'') ''O''"
        and pre = "[]" and u = "''alice''" and f = "\<lambda>k m f c. Inr ()",
        THEN conjunct2, THEN conjunct2] c m
    by (simp add: ex_defs isDMChannel_def eventPost_def channelTypeOf_def buildSessionKey_def)
  have e: "shouldRespond ?st (examplePost ''user1'' ''chan1'' ''hello'') ''O'' True"
    using shouldRespond_allowlist [where st = ?st and p = "examplePost ''user1'' ''chan1'' ''hello''"
        and ct = "''O''" and m = True,
        THEN conjunct2, THEN conjunct1]
    by (simp add: ex_defs isDMChannel_def)
  have f: "\<not> shouldRespond ?st (examplePost ''user1'' ''chan1'' ''hello'') ''O'' False"
    using shouldRespond_allowlist [where st = ?st and p = "examplePost ''user1'' ''chan1'' ''hello''"
        and ct = "''O''" and m = False,
        THEN conjunct2, THEN conjunct1]
    by (simp add: ex_defs isDMChannel_def)
  have g: "shouldRespond ?st (examplePost ''user1'' ''chan3'' ''hello'') ''P'' False"
    using shouldRespond_allowlist [where st = ?st and p = "examplePost ''user1'' ''chan3'' ''hello''"
        and ct = "''P''" and m = False,
        THEN conjunct2, THEN conjunct1]
    by (simp add: ex_defs isDMChannel_def)
  from a b c d e f g show ?thesis
    by (intro conjI)
qed

section \<open>Posts of the bot itself\<close>

text \<open>
  C1, as the source has it. A post whose sender is the bot gets the negative verdict
  whatever the channel kind, the policies and the mention flag are, and the handler then
  returns normally without posting a placeholder, calling the AI or editing anything. The
  post is not dropped silently, though: as for every post that is not answered, the
  handler looks up the sender and, when that lookup succeeds and the log collaborator is
  there, hands the post to the session history under the channel's session key.
\<close>

theorem own_post_logged_not_answered:
  assumes "user_id p = botUserId st"
  shows "\<not> shouldRespond st p ct m
     \<and> (eventPost en ev = Some p \<longrightarrow>
          snd (handlePostedEvent st en ev) = Inr ()
        \<and> filter isReplyCall (fst (handlePostedEvent st en ev)) = []
        \<and> (ctx_set st \<and> client_set st \<and> getUser en (user_id p) = Inr u \<and> logMessage en = Some f \<longrightarrow>
             fst (handlePostedEvent st en ev) =
               fst (channelTypeOf en ev p) @
               [GetUser (user_id p),
                LogMessage (buildSessionKey (channel_id p) (isDMChannel (snd (channelTypeOf en ev p))))
                  (message p) u (channel_id p)]))"
proof -
  have no: "\<not> shouldRespond st p t b" for t b
    using assms by (rule shouldRespond_own)
  have run: "handlePostedEvent st en ev =
     (if \<not> ctx_set st \<or> \<not> client_set st then ([], Inr ())
      else (fst (channelTypeOf en ev p) @ logForContext en p (snd (channelTypeOf en ev p)), Inr ()))"
    if "eventPost en ev = Some p"
    using that no by (rule handlePostedEvent_not_admitted)
  show ?thesis
    using no run by (simp add: logForContext_no_reply channelTypeOf_no_reply logForContext_logged)
qed

text \<open>
  C1 as stated fails: the placeholder that the bot posted comes back as an event of the
  bot's own, and the handler records it in the session history of the channel.
\<close>

theorem own_post_is_logged:
  "user_id (examplePost ''bot1'' ''chan1'' ''_Thinking..._'') =
     botUserId (exampleState ''wopr-bot'' (exampleConfig None None))
   \<and> handlePostedEvent (exampleState ''wopr-bot'' (exampleConfig None None)) (exampleEnv True True)
       (exampleEvent (examplePost ''bot1'' ''chan1'' ''_Thinking..._'') ''O'') =
     ([GetUser ''bot1'',
       LogMessage ''mattermost-channel-chan1'' ''_Thinking..._'' ''wopr-bot'' ''chan1''], Inr ())"
  by (simp add: ex_defs handlePostedEvent_def eventPost_def channelTypeOf_def shouldRespond_def
        logForContext_def buildSessionKey_def isDMChannel_def)

text \<open>A direct message that mentions the bot, sent by the bot: logged, not answered.\<close>

theorem own_post_logged_not_answered_witness:
  "\<not> shouldRespond (exampleState ''wopr-bot'' (exampleConfig None None))
       (examplePost ''bot1'' ''dm1'' ''@wopr-bot hello'') ''D'' True
   \<and> snd (handlePostedEvent (exampleState ''wopr-bot'' (exampleConfig None None)) (exampleEnv True True)
       (exampleEvent (examplePost ''bot1'' ''dm1'' ''@wopr-bot hello'') ''D'')) = Inr ()
   \<and> filter isReplyCall (fst (handlePostedEvent (exampleState ''wopr-bot'' (exampleConfig None None))
       (exampleEnv True True) (exampleEvent (examplePost ''bot1'' ''dm1'' ''@wopr-bot hello'') ''D''))) = []
   \<and> fst (handlePostedEvent (exampleState ''wopr-bot'' (exampleConfig None None)) (exampleEnv True True)
       (exampleEvent (examplePost ''bot1'' ''dm1'' ''@wopr-bot hello'') ''D'')) =
     [GetUser ''bot1'', LogMessage ''mattermost-dm-dm1'' ''@wopr-bot hello'' ''wopr-bot'' ''dm1'']"
  using own_post_logged_not_answered
    [where st = "exampleState ''wopr-bot'' (exampleConfig None None)"
       and p = "examplePost ''bot1'' ''dm1'' ''@wopr-bot hello''" and ct = "''D''" and m = True
       and en = "exampleEnv True True"
       and ev = "exampleEvent (examplePost ''bot1'' ''dm1'' ''@wopr-bot hello'') ''D''"
       and u = "''wopr-bot''" and f = "\<lambda>k m f c. Inr ()"]
  by (simp add: ex_defs eventPost_def channelTypeOf_def buildSessionKey_def isDMChannel_def)

section \<open>Mention detection with an empty bot username\<close>

lemma sublist_single: "sublist [x] ys \<longleftrightarrow> x \<in> set ys"
  by (induction ys) (auto simp: sublist_Cons_right)

lemma onInjectFailed_no_inject: "Inject k t f c \<notin> set (fst (onInjectFailed en n i))"
  by (simp add: onInjectFailed_def split: sum.splits)

lemma injectAndFinalize_inject:
  "Inject k t f c \<in> set (fst (injectAndFinalize en i k' t' f' c')) \<Longrightarrow> t = t'"
  using onInjectFailed_no_inject [of k t f c en]
  by (auto simp: injectAndFinalize_def case_prod_beta split: sum.splits)

lemma respond_inject:
  "Inject k t f c \<in> set (fst (respond st en p ct)) \<Longrightarrow>
   t = messageText en (botUsername st) (message p)"
  using injectAndFinalize_inject [of k t f c en]
  by (auto simp: respond_def Let_def case_prod_beta split: sum.splits)

lemma logForContext_no_inject: "Inject k t f c \<notin> set (logForContext en p ct)"
  by (simp add: logForContext_def Let_def split: sum.splits option.splits)

lemma channelTypeOf_no_inject: "Inject k t f c \<notin> set (fst (channelTypeOf en ev p))"
  by (simp add: channelTypeOf_def Let_def)

lemma handlePostedEvent_inject:
  "eventPost en ev = Some p \<Longrightarrow> Inject k t f c \<in> set (fst (handlePostedEvent st en ev)) \<Longrightarrow>
   t = messageText en (botUsername st) (message p)"
  using respond_inject [of k t f c st en p] logForContext_no_inject [of k t f c en p]
    channelTypeOf_no_inject [of k t f c en ev p]
  by (auto simp: handlePostedEvent_def Let_def case_prod_beta split: if_splits)

text \<open>
  C10. While the bot username is the empty string, no message body counts as a mention,
  although the substring rule taken with the empty username would accept every body that
  contains the character @; the text for the AI is the body as it is, and every inject call
  the handler makes for a post carries that post's body unchanged.
\<close>

theorem empty_username_no_mention:
  assumes "botUsername st = []"
  shows "\<not> botMentioned (botUsername st) body
     \<and> (CHR ''@'' \<in> set body \<longrightarrow> str_includes body (CHR ''@'' # botUsername st))
     \<and> messageText en (botUsername st) body = body
     \<and> (eventPost en ev = Some p \<longrightarrow>
          (\<forall>k t f c. Inject k t f c \<in> set (fst (handlePostedEvent st en ev)) \<longrightarrow> t = message p))"
  using assms handlePostedEvent_inject [of en ev p _ _ _ _ st]
  by (auto simp: botMentioned_def messageText_def str_includes_def sublist_single)

text \<open>
  A direct message with an @ in it, before the bot knows its name: not a mention, and the
  AI receives the body as written.
\<close>

theorem empty_username_no_mention_witness:
  "\<not> botMentioned (botUsername (exampleState [] (exampleConfig None None))) ''ping @ everyone''
   \<and> str_includes ''ping @ everyone'' (CHR ''@'' # botUsername (exampleState [] (exampleConfig None None)))
   \<and> Inject ''mattermost-dm-dm1'' ''ping @ everyone'' ''alice'' ''dm1''
       \<in> set (fst (handlePostedEvent (exampleState [] (exampleConfig None None)) (exampleEnv True True)
             (exampleEvent (examplePost ''user1'' ''dm1'' ''ping @ everyone'') ''D'')))"
  using empty_username_no_mention
    [where st = "exampleState [] (exampleConfig None None)" and body = "''ping @ everyone''"
       and en = "exampleEnv True True"
       and ev = "exampleEvent (examplePost ''user1'' ''dm1'' ''ping @ everyone'') ''D''"
       and p = "examplePost ''user1'' ''dm1'' ''ping @ everyone''"]
  by (simp add: ex_defs handlePostedEvent_def eventPost_def channelTypeOf_def shouldRespond_def
        isDMChannel_def respond_def injectAndFinalize_def thinkingText_def rootId_def
        buildSessionKey_def messageText_def senderUsername_def botMentioned_def)

section \<open>Failure of the AI call\<close>

text \<open>
  C7. For an admitted post whose placeholder was posted, when the inject call fails the
  handler's calls are, after the channel lookup: the sender lookup, the placeholder, the
  inject call, the error log line and one edit of the placeholder, to the fixed error
  notice. No other edit is made, and the handler returns normally. No assumption is made on
  the outcome of that edit: the handler returns normally also when the edit fails. The
  logger is taken not to throw.
\<close>

theorem inject_failure_shows_notice:
  assumes "ctx_set st" and "client_set st" and "eventPost en ev = Some p"
    and "channelTypeOf en ev p = (pre, ct)"
    and "shouldRespond st p ct (botMentioned (botUsername st) (message p))"
    and "createPost en (channel_id p) thinkingText (rootId (config st) p) = Inr tp"
    and "inject en (buildSessionKey (channel_id p) (isDMChannel ct))
           (messageText en (botUsername st) (message p)) (senderUsername en p) (channel_id p) = Inl e"
  shows "handlePostedEvent st en ev =
           (pre @ [GetUser (user_id p),
                   CreatePost (channel_id p) ''_Thinking..._'' (rootId (config st) p),
                   Inject (buildSessionKey (channel_id p) (isDMChannel ct))
                     (messageText en (botUsername st) (message p)) (senderUsername en p) (channel_id p),
                   LoggerError ''Inject failed:'',
                   UpdatePost (post_id tp) ''Error processing your request. Please try again.''],
            Inr ())"
  using assms
  by (simp add: handlePostedEvent_def respond_def injectAndFinalize_def onInjectFailed_def
        Let_def thinkingText_def errorNotice_def split: sum.splits)

text \<open>A direct message for which both the inject call and the edit of the placeholder fail.\<close>

theorem inject_failure_shows_notice_witness:
  "handlePostedEvent (exampleState ''wopr-bot'' (exampleConfig None None)) (exampleEnv False False)
       (exampleEvent (examplePost ''user1'' ''dm1'' ''hello'') ''D'') =
     ([GetUser ''user1'', CreatePost ''dm1'' ''_Thinking..._'' None,
       Inject ''mattermost-dm-dm1'' ''hello'' ''alice'' ''dm1'',
       LoggerError ''Inject failed:'',
       UpdatePost ''reply1'' ''Error processing your request. Please try again.''], Inr ())"
  using inject_failure_shows_notice
    [where st = "exampleState ''wopr-bot'' (exampleConfig None None)"
       and en = "exampleEnv False False"
       and ev = "exampleEvent (examplePost ''user1'' ''dm1'' ''hello'') ''D''"
       and p = "examplePost ''user1'' ''dm1'' ''hello''" and pre = "[]" and ct = "''D''"
       and tp = "\<lparr>post_id = ''reply1'', user_id = ''bot1'', channel_id = ''dm1'',
                  root_id = [], message = ''_Thinking..._'', post_type = []\<rparr>"
       and e = "Error ''inject rejected''"]
  by (simp add: ex_defs eventPost_def channelTypeOf_def shouldRespond_def isDMChannel_def
        thinkingText_def rootId_def buildSessionKey_def messageText_def senderUsername_def)

section \<open>Reply truncation\<close>

lemma finalText_long:
  assumes "length response > MM_MSG_LIMIT"
  shows "length (finalText response) = MM_MSG_LIMIT" and "suffix ''...'' (finalText response)"
    and "take (MM_MSG_LIMIT - 3) (finalText response) = take (MM_MSG_LIMIT - 3) response"
  using assms by (simp_all add: finalText_def MM_MSG_LIMIT_def suffix_def)

lemma finalText_short: "length response \<le> MM_MSG_LIMIT \<Longrightarrow> finalText response = response"
  by (simp add: finalText_def)

lemma handlePostedEvent_finalized:
  assumes "ctx_set st" and "client_set st" and "eventPost en ev = Some p"
    and "channelTypeOf en ev p = (pre, ct)"
    and "shouldRespond st p ct (botMentioned (botUsername st) (message p))"
    and "createPost en (channel_id p) thinkingText (rootId (config st) p) = Inr tp"
    and "inject en (buildSessionKey (channel_id p) (isDMChannel ct))
           (messageText en (botUsername st) (message p)) (senderUsername en p) (channel_id p)
         = Inr response"
  shows "\<exists>rest. fst (handlePostedEvent st en ev) =
           pre @ [GetUser (user_id p),
                  CreatePost (channel_id p) ''_Thinking..._'' (rootId (config st) p),
                  Inject (buildSessionKey (channel_id p) (isDMChannel ct))
                    (messageText en (botUsername st) (message p)) (senderUsername en p)
                    (channel_id p),
                  UpdatePost (post_id tp) (finalText response)] @ rest
         \<and> (isl (updatePost en 0 (post_id tp) (finalText response)) \<or> rest = [])"
  using assms
  by (simp add: handlePostedEvent_def respond_def injectAndFinalize_def onInjectFailed_def
        Let_def thinkingText_def split: sum.splits)

text \<open>
  C9. When the AI call for an admitted post returns a response, the first edit of the
  placeholder that the handler requests carries the finalized text, and it is the only edit
  when it succeeds. For a response strictly longer than the limit of 16383 that text has
  exactly the limit as its length, ends in the three characters of the ellipsis and agrees
  with the response on the characters before them; for a response of at most the limit it
  is the response itself.
\<close>

theorem finalText_truncates:
  assumes "ctx_set st" and "client_set st" and "eventPost en ev = Some p"
    and "channelTypeOf en ev p = (pre, ct)"
    and "shouldRespond st p ct (botMentioned (botUsername st) (message p))"
    and "createPost en (channel_id p) thinkingText (rootId (config st) p) = Inr tp"
    and "inject en (buildSessionKey (channel_id p) (isDMChannel ct))
           (messageText en (botUsername st) (message p)) (senderUsername en p) (channel_id p)
         = Inr response"
  shows "\<exists>shown rest.
           fst (handlePostedEvent st en ev) =
             pre @ [GetUser (user_id p),
                    CreatePost (channel_id p) ''_Thinking..._'' (rootId (config st) p),
                    Inject (buildSessionKey (channel_id p) (isDMChannel ct))
                      (messageText en (botUsername st) (message p)) (senderUsername en p)
                      (channel_id p),
                    UpdatePost (post_id tp) shown] @ rest
         \<and> (isl (updatePost en 0 (post_id tp) shown) \<or> rest = [])
         \<and> (length response > 16383 \<longrightarrow>
               length shown = 16383 \<and> suffix ''...'' shown \<and> take 16380 shown = take 16380 response)
         \<and> (length response \<le> 16383 \<longrightarrow> shown = response)"
proof -
  from handlePostedEvent_finalized [OF assms] obtain rest where
    trace: "fst (handlePostedEvent st en ev) =
           pre @ [GetUser (user_id p),
                  CreatePost (channel_id p) ''_Thinking..._'' (rootId (config st) p),
                  Inject (buildSessionKey (channel_id p) (isDMChannel ct))
                    (messageText en (botUsername st) (message p)) (senderUsername en p)
                    (channel_id p),
                  UpdatePost (post_id tp) (finalText response)] @ rest"
    and only: "isl (updatePost en 0 (post_id tp) (finalText response)) \<or> rest = []"
    by blast
  have long: "length (finalText response) = 16383 \<and> suffix ''...'' (finalText response)
      \<and> take 16380 (finalText response) = take 16380 response"
    if "length response > 16383"
    using finalText_long [of response] that by (simp add: MM_MSG_LIMIT_def)
  have short: "finalText response = response" if "length response \<le> 16383"
    using finalText_short [of response] that by (simp add: MM_MSG_LIMIT_def)
  from trace only long short show ?thesis by blast
qed

text \<open>
  A direct message answered with 16384 characters: the placeholder is edited to 16380 of
  them followed by the ellipsis. And one answered with a short response, edited to it.
\<close>

theorem finalText_truncates_witness:
  "fst (handlePostedEvent (exampleState ''wopr-bot'' (exampleConfig None None)) longReplyEnv
       (exampleEvent (examplePost ''user1'' ''dm1'' ''hello'') ''D'')) =
     [GetUser ''user1'', CreatePost ''dm1'' ''_Thinking..._'' None,
      Inject ''mattermost-dm-dm1'' ''hello'' ''alice'' ''dm1'',
      UpdatePost ''reply1'' (replicate 16380 CHR ''a'' @ ''...'')]
   \<and> length (replicate 16380 CHR ''a'' @ ''...'') = 16383
   \<and> fst (handlePostedEvent (exampleState ''wopr-bot'' (exampleConfig None None)) (exampleEnv True True)
       (exampleEvent (examplePost ''user1'' ''dm1'' ''hello'') ''D'')) =
     [GetUser ''user1'', CreatePost ''dm1'' ''_Thinking..._'' None,
      Inject ''mattermost-dm-dm1'' ''hello'' ''alice'' ''dm1'',
      UpdatePost ''reply1'' ''AI response'']"
proof -
  let ?st = "exampleState ''wopr-bot'' (exampleConfig None None)"
  let ?p = "examplePost ''user1'' ''dm1'' ''hello''"
  let ?ev = "exampleEvent ?p ''D''"
  let ?tp = "\<lparr>post_id = ''reply1'', user_id = ''bot1'', channel_id = ''dm1'',
               root_id = [], message = ''_Thinking..._'', post_type = []\<rparr>"
  let ?long = "replicate 16384 CHR ''a''"
  let ?key = "buildSessionKey (channel_id ?p) (isDMChannel ''D'')"
  have hyps: "ctx_set ?st" "client_set ?st"
    "shouldRespond ?st ?p ''D'' (botMentioned (botUsername ?st) (message ?p))"
    by (simp_all add: ex_defs shouldRespond_def isDMChannel_def)
  have vals: "?key = ''mattermost-dm-dm1''"
    "buildSessionKey ''dm1'' (isDMChannel ''D'') = ''mattermost-dm-dm1''"
    "user_id ?p = ''user1''" "channel_id ?p = ''dm1''" "rootId (config ?st) ?p = None"
    "post_id ?tp = ''reply1''"
    by (simp_all add: ex_defs buildSessionKey_def isDMChannel_def rootId_def)
  have long_env: "eventPost longReplyEnv ?ev = Some ?p"
    "channelTypeOf longReplyEnv ?ev ?p = ([], ''D'')"
    "createPost longReplyEnv (channel_id ?p) thinkingText (rootId (config ?st) ?p) = Inr ?tp"
    "inject longReplyEnv ?key
       (messageText longReplyEnv (botUsername ?st) (message ?p)) (senderUsername longReplyEnv ?p)
       (channel_id ?p) = Inr ?long"
    by (simp_all add: longReplyEnv_def ex_defs eventPost_def channelTypeOf_def thinkingText_def
        rootId_def)
  have long_vals: "\<not> isl (updatePost longReplyEnv 0 (post_id ?tp) shown)"
    "senderUsername longReplyEnv ?p = ''alice''"
    "messageText longReplyEnv (botUsername ?st) (message ?p) = ''hello''"
    for shown
    by (simp_all add: longReplyEnv_def ex_defs senderUsername_def messageText_def)
  have short_env: "eventPost (exampleEnv True True) ?ev = Some ?p"
    "channelTypeOf (exampleEnv True True) ?ev ?p = ([], ''D'')"
    "createPost (exampleEnv True True) (channel_id ?p) thinkingText (rootId (config ?st) ?p) = Inr ?tp"
    "inject (exampleEnv True True) ?key
       (messageText (exampleEnv True True) (botUsername ?st) (message ?p))
       (senderUsername (exampleEnv True True) ?p) (channel_id ?p) = Inr ''AI response''"
    by (simp_all add: ex_defs eventPost_def channelTypeOf_def thinkingText_def rootId_def)
  have short_vals: "\<not> isl (updatePost (exampleEnv True True) 0 (post_id ?tp) shown)"
    "senderUsername (exampleEnv True True) ?p = ''alice''"
    "messageText (exampleEnv True True) (botUsername ?st) (message ?p) = ''hello''"
    for shown
    by (simp_all add: ex_defs senderUsername_def messageText_def)
  from finalText_truncates [OF hyps(1,2) long_env(1,2) hyps(3) long_env(3,4)]
  obtain shown rest where
    t: "fst (handlePostedEvent ?st longReplyEnv ?ev) =
          [] @ [GetUser (user_id ?p),
                CreatePost (channel_id ?p) ''_Thinking..._'' (rootId (config ?st) ?p),
                Inject ?key (messageText longReplyEnv (botUsername ?st) (message ?p))
                  (senderUsername longReplyEnv ?p) (channel_id ?p),
                UpdatePost (post_id ?tp) shown] @ rest"
    and r: "isl (updatePost longReplyEnv 0 (post_id ?tp) shown) \<or> rest = []"
    and l: "length ?long > 16383 \<longrightarrow>
        length shown = 16383 \<and> suffix ''...'' shown \<and> take 16380 shown = take 16380 ?long"
    by blast
  from r have rest: "rest = []"
    by (simp only: long_vals(1) simp_thms)
  from l have len: "length shown = 16383" and sf: "suffix ''...'' shown"
    and tk: "take 16380 shown = replicate 16380 CHR ''a''"
    by simp_all
  from sf obtain front where front: "shown = front @ ''...''"
    by (auto simp: suffix_def)
  with len have "length front = 16380" by simp
  with tk front have "front = replicate 16380 CHR ''a''" by simp
  with front have shown: "shown = replicate 16380 CHR ''a'' @ ''...''" by simp
  have one: "fst (handlePostedEvent ?st longReplyEnv ?ev) =
     [GetUser ''user1'', CreatePost ''dm1'' ''_Thinking..._'' None,
      Inject ''mattermost-dm-dm1'' ''hello'' ''alice'' ''dm1'',
      UpdatePost ''reply1'' (replicate 16380 CHR ''a'' @ ''...'')]"
    by (simp only: t rest shown vals long_vals(2,3) append_Nil append_Nil2)
  from finalText_truncates [OF hyps(1,2) short_env(1,2) hyps(3) short_env(3,4)]
  obtain shown' rest' where
    t': "fst (handlePostedEvent ?st (exampleEnv True True) ?ev) =
          [] @ [GetUser (user_id ?p),
                CreatePost (channel_id ?p) ''_Thinking..._'' (rootId (config ?st) ?p),
                Inject ?key (messageText (exampleEnv True True) (botUsername ?st) (message ?p))
                  (senderUsername (exampleEnv True True) ?p) (channel_id ?p),
                UpdatePost (post_id ?tp) shown'] @ rest'"
    and r': "isl (updatePost (exampleEnv True True) 0 (post_id ?tp) shown') \<or> rest' = []"
    and s': "length ''AI response'' \<le> 16383 \<longrightarrow> shown' = ''AI response''"
    by blast
  from r' have rest': "rest' = []"
    by (simp only: short_vals(1) simp_thms)
  from s' have shown': "shown' = ''AI response''" by simp
  have two: "fst (handlePostedEvent ?st (exampleEnv True True) ?ev) =
     [GetUser ''user1'', CreatePost ''dm1'' ''_Thinking..._'' None,
      Inject ''mattermost-dm-dm1'' ''hello'' ''alice'' ''dm1'',
      UpdatePost ''reply1'' ''AI response'']"
    by (simp only: t' rest' shown' vals short_vals(2,3) append_Nil append_Nil2)
  have three: "length (replicate 16380 CHR ''a'' @ ''...'') = 16383"
    by simp
  from one three two show ?thesis
    by (intro conjI)
qed

section \<open>Dispatch to listeners\<close>

lemma callListeners_invoked:
  "fst (callListeners hs ev) =
     map fst (takeWhile (\<lambda>l. \<not> throws ev l) hs)
       @ map fst (take 1 (dropWhile (\<lambda>l. \<not> throws ev l) hs))"
proof (induction hs)
  case Nil
  show ?case by simp
next
  case (Cons l hs)
  obtain i h where l: "l = (i, h)" by (cases l)
  show ?case
  proof (cases "h ev")
    case (Inl e)
    then show ?thesis by (simp add: l throws_def)
  next
    case (Inr u)
    then show ?thesis using Cons.IH by (simp add: l throws_def case_prod_beta)
  qed
qed

text \<open>
  C2, as the source has it. For a frame that parses, the listeners are invoked in
  registration order up to and including the first one that throws; the listeners
  registered after it are not invoked for that event. The exception is swallowed by the
  handler, which returns normally. When no listener throws, every listener is invoked.
\<close>

theorem onMessage_stops_at_throwing_listener:
  assumes "parse raw = Inr ev"
  shows "onMessage parse hs raw =
           (map fst (takeWhile (\<lambda>l. \<not> throws ev l) hs)
              @ map fst (take 1 (dropWhile (\<lambda>l. \<not> throws ev l) hs)), Inr ())
       \<and> ((\<forall>l \<in> set hs. \<not> throws ev l) \<longrightarrow> fst (onMessage parse hs raw) = map fst hs)"
proof -
  have "onMessage parse hs raw = (fst (callListeners hs ev), Inr ())"
    using assms by (simp add: onMessage_def split: prod.splits sum.splits)
  then have main: "onMessage parse hs raw =
           (map fst (takeWhile (\<lambda>l. \<not> throws ev l) hs)
              @ map fst (take 1 (dropWhile (\<lambda>l. \<not> throws ev l) hs)), Inr ())"
    by (simp add: callListeners_invoked)
  have "fst (onMessage parse hs raw) = map fst hs" if "\<forall>l \<in> set hs. \<not> throws ev l"
  proof -
    have tw: "takeWhile (\<lambda>l. \<not> throws ev l) hs = hs"
      and dw: "dropWhile (\<lambda>l. \<not> throws ev l) hs = []"
      using that by (simp_all add: takeWhile_eq_all_conv)
    show ?thesis by (simp only: main fst_conv tw dw take_Nil list.map append_Nil2)
  qed
  with main show ?thesis by blast
qed

text \<open>
  C2 as stated fails: with a throwing listener registered before a second one, the second
  one is never invoked for the event.
\<close>

theorem sibling_listener_skipped:
  "exampleParse ''posted'' = Inr ''posted''
   \<and> onMessage exampleParse [(0, throwingListener), (1, quietListener)] ''posted'' = ([0], Inr ())"
  by (simp add: exampleParse_def onMessage_def throwingListener_def quietListener_def)

text \<open>Three listeners, the second throws; and two listeners that do not throw.\<close>

theorem onMessage_stops_at_throwing_listener_witness:
  "onMessage exampleParse [(0, quietListener), (1, throwingListener), (2, quietListener)] ''posted''
     = ([0, 1], Inr ())
   \<and> fst (onMessage exampleParse [(0, quietListener), (1, quietListener)] ''posted'') = [0, 1]"
  using
    onMessage_stops_at_throwing_listener [where parse = exampleParse and raw = "''posted''"
      and ev = "''posted''" and hs = "[(0, quietListener), (1, throwingListener), (2, quietListener)]"]
    onMessage_stops_at_throwing_listener [where parse = exampleParse and raw = "''posted''"
      and ev = "''posted''" and hs = "[(0, quietListener), (1, quietListener)]"]
  by (simp add: exampleParse_def throws_def throwingListener_def quietListener_def)

section \<open>Connection life cycle\<close>

lemma list_update_Cons_numeral: "(x # xs)[numeral v := y] = x # xs[numeral v - 1 := y]"
  by (simp add: numeral_eq_Suc)

lemmas client_eval = connectWebSocket_def doConnect_def newSocket_def
  disconnectWebSocket_def clearTimeout_def onOpen_def onClose_def scheduleReconnect_def
  upd_at_def maxReconnectAttempts_def reconnectBaseDelay_def Let_def
  list_update_Cons_numeral

text \<open>
  C3, as the source has it. \<^verbatim>\<open>connectWebSocket\<close> has no check of the stored socket.
  In every state in which a socket is stored, one with an established connection among
  them, it constructs one more socket and stores it in place of the previous one; the
  sockets that existed are left as they were (the previous one is not closed), the
  reconnect flag is set, and counter, timer slot and timers are unchanged.
\<close>

theorem connectWebSocket_replaces_socket:
  assumes "ws c = Some i" and "i < length (sockets c)"
  shows "length (sockets (connectWebSocket c)) = length (sockets c) + 1
     \<and> ws (connectWebSocket c) = Some (length (sockets c))
     \<and> ws (connectWebSocket c) \<noteq> ws c
     \<and> take (length (sockets c)) (sockets (connectWebSocket c)) = sockets c
     \<and> last (sockets (connectWebSocket c)) = newSocket
     \<and> shouldReconnect (connectWebSocket c)
     \<and> reconnectAttempts (connectWebSocket c) = reconnectAttempts c
     \<and> reconnectTimer (connectWebSocket c) = reconnectTimer c
     \<and> timers (connectWebSocket c) = timers c"
  using assms by (simp add: connectWebSocket_def doConnect_def)

text \<open>
  C3 as stated fails: connect, the socket opens, connect again. The client then has two
  sockets, the first still open and no longer stored, the second one stored.
\<close>

theorem second_connect_opens_second_socket:
  "run [Connect, SockOpen 0 True] newClient = Some openedClient
   \<and> run [Connect, SockOpen 0 True, Connect] newClient =
       Some \<lparr>ws = Some 1, reconnectTimer = None, reconnectAttempts = 0, shouldReconnect = True,
         sockets = [\<lparr>open_fired = True, close_fired = False, close_called = False, frames_sent = 1\<rparr>,
                    \<lparr>open_fired = False, close_fired = False, close_called = False, frames_sent = 0\<rparr>],
         timers = []\<rparr>"
  by (simp add: newClient_def openedClient_def connectWebSocket_def doConnect_def newSocket_def
        onOpen_def upd_at_def)

text \<open>The same at the client with an established connection.\<close>

theorem connectWebSocket_replaces_socket_witness:
  "ws openedClient = Some 0
   \<and> length (sockets (connectWebSocket openedClient)) = 2
   \<and> ws (connectWebSocket openedClient) = Some 1
   \<and> take 1 (sockets (connectWebSocket openedClient)) = sockets openedClient
   \<and> shouldReconnect (connectWebSocket openedClient)"
  using connectWebSocket_replaces_socket [where c = openedClient and i = 0]
  by (simp add: openedClient_def)

section \<open>Reconnection with backoff\<close>

lemma map_fst_upd_at:
  assumes "\<And>x. fst (f x) = fst x"
  shows "map fst (upd_at i f xs) = map fst xs"
  using assms by (simp add: upd_at_def map_update list_update_same_conv)

lemma length_upd_at [simp]: "length (upd_at i f xs) = length xs"
  by (simp add: upd_at_def)

lemma scheduleReconnect_delays:
  "map fst (timers (scheduleReconnect c)) =
     map fst (timers c) @
       (if reconnectAttempts c < maxReconnectAttempts
        then [reconnectBaseDelay * 2 ^ reconnectAttempts c] else [])"
  by (simp add: scheduleReconnect_def Let_def)

lemma scheduleReconnect_attempts:
  "reconnectAttempts (scheduleReconnect c) =
     (if reconnectAttempts c < maxReconnectAttempts then reconnectAttempts c + 1
      else reconnectAttempts c)"
  by (simp add: scheduleReconnect_def Let_def)

lemma scheduleReconnect_flag: "shouldReconnect (scheduleReconnect c) = shouldReconnect c"
  by (simp add: scheduleReconnect_def Let_def)

lemma step_close_backoff:
  assumes "step (SockClose i) c = Some c'" and "shouldReconnect c"
  shows "shouldReconnect c'
     \<and> reconnectAttempts c' =
         (if reconnectAttempts c < maxReconnectAttempts then reconnectAttempts c + 1
          else reconnectAttempts c)
     \<and> map fst (timers c') =
         map fst (timers c) @
           (if reconnectAttempts c < maxReconnectAttempts
            then [reconnectBaseDelay * 2 ^ reconnectAttempts c] else [])"
  using assms
  by (auto simp: onClose_def scheduleReconnect_delays scheduleReconnect_attempts
        scheduleReconnect_flag split: if_splits)

lemma step_timer_backoff:
  assumes "step (TimerFire t) c = Some c'"
  shows "shouldReconnect c' = shouldReconnect c \<and> reconnectAttempts c' = reconnectAttempts c
     \<and> map fst (timers c') = map fst (timers c)"
  using assms by (auto simp: doConnect_def map_fst_upd_at case_prod_beta split: if_splits)

lemma step_error_same: "step (SockError i) c = Some c' \<Longrightarrow> c' = c"
  by (auto split: if_splits)

lemma run_backoff:
  assumes "run es c = Some c'" and "\<forall>e \<in> set es. isCloseOrTimer e" and "shouldReconnect c"
    and "reconnectAttempts c \<le> maxReconnectAttempts"
  shows "map fst (timers c') =
           map fst (timers c) @
             map (\<lambda>k. reconnectBaseDelay * 2 ^ k)
               [reconnectAttempts c ..<
                  min (reconnectAttempts c + length (filter isSockClose es)) maxReconnectAttempts]"
  using assms
proof (induction es arbitrary: c)
  case Nil
  then show ?case by simp
next
  case (Cons e es)
  from Cons.prems(1) obtain d where d: "step e c = Some d" and r: "run es d = Some c'"
    by (auto split: option.splits)
  from Cons.prems(2) have rest: "\<forall>e \<in> set es. isCloseOrTimer e" and e: "isCloseOrTimer e"
    by simp_all
  let ?a = "reconnectAttempts c"
  show ?case
  proof (cases e)
    case (SockClose i)
    note sc = step_close_backoff [OF d [unfolded SockClose] Cons.prems(3)]
    have le: "reconnectAttempts d \<le> maxReconnectAttempts"
      using sc Cons.prems(4) by (simp split: if_splits)
    have ih: "map fst (timers c') =
           map fst (timers d) @
             map (\<lambda>k. reconnectBaseDelay * 2 ^ k)
               [reconnectAttempts d ..<
                  min (reconnectAttempts d + length (filter isSockClose es)) maxReconnectAttempts]"
      using Cons.IH [OF r rest] sc le by simp
    show ?thesis
    proof (cases "?a < maxReconnectAttempts")
      case True
      then have "[?a ..< min (?a + Suc (length (filter isSockClose es))) maxReconnectAttempts] =
          ?a # [Suc ?a ..< min (Suc ?a + length (filter isSockClose es)) maxReconnectAttempts]"
        by (simp add: upt_conv_Cons)
      then show ?thesis using ih sc True by (simp add: SockClose)
    next
      case False
      then show ?thesis using ih sc Cons.prems(4) by (simp add: SockClose)
    qed
  next
    case (TimerFire t)
    note st = step_timer_backoff [OF d [unfolded TimerFire]]
    show ?thesis using Cons.IH [OF r rest] st Cons.prems(3,4) by (simp add: TimerFire)
  next
    case (SockError i)
    have "d = c" using d by (simp add: SockError step_error_same)
    then show ?thesis using Cons.IH [OF r rest] Cons.prems(3,4) by (simp add: SockError)
  qed (use e in simp_all)
qed

lemma step_counter:
  assumes "step e d = Some d'" and "reconnectAttempts d' < reconnectAttempts d"
  shows "(\<exists>i ok. e = SockOpen i ok) \<and> reconnectAttempts d' = 0"
  using assms
  by (cases e)
    (auto simp: connectWebSocket_def doConnect_def disconnectWebSocket_def clearTimeout_def
      onOpen_def onClose_def scheduleReconnect_def Let_def split: if_splits option.splits)

text \<open>
  C4. Let the client be armed for reconnection with its attempt counter at zero, as after a
  socket opened, and let any sequence of socket closes, socket errors and timer expiries
  follow, with no open in between. Then the delays requested in that time are, in order,
  base times 2 to the power 0, 1, 2, ..., one for each close, so the delay requested at
  close number n + 1 is base times 2 to the power n; there are never more than ten of them
  (the close after the tenth attempt requests no timer). Moreover, a step of the client
  that lowers the attempt counter is the open event of a socket and sets the counter to
  zero; scheduling a reconnect never lowers it and starting the attempt leaves it as it is.
\<close>

theorem reconnect_backoff:
  "(run es c = Some c' \<and> (\<forall>e \<in> set es. isCloseOrTimer e) \<and> shouldReconnect c
      \<and> reconnectAttempts c = 0 \<longrightarrow>
        delaysSince c c' =
          map (\<lambda>k. reconnectBaseDelay * 2 ^ k)
            [0 ..< min (length (filter isSockClose es)) maxReconnectAttempts]
      \<and> (\<forall>n. n < length (filter isSockClose es) \<and> n < maxReconnectAttempts \<longrightarrow>
            delaysSince c c' ! n = reconnectBaseDelay * 2 ^ n)
      \<and> length (delaysSince c c') \<le> 10)
   \<and> (step e d = Some d' \<and> reconnectAttempts d' < reconnectAttempts d \<longrightarrow>
        (\<exists>i ok. e = SockOpen i ok) \<and> reconnectAttempts d' = 0)
   \<and> reconnectAttempts d \<le> reconnectAttempts (scheduleReconnect d)
   \<and> reconnectAttempts (doConnect d) = reconnectAttempts d"
proof -
  have backoff: "delaysSince c c' =
          map (\<lambda>k. reconnectBaseDelay * 2 ^ k)
            [0 ..< min (length (filter isSockClose es)) maxReconnectAttempts]"
    if "run es c = Some c'" and "\<forall>e \<in> set es. isCloseOrTimer e" and "shouldReconnect c"
      and "reconnectAttempts c = 0"
  proof -
    have "map fst (timers c') =
        map fst (timers c) @
          map (\<lambda>k. reconnectBaseDelay * 2 ^ k)
            [0 ..< min (length (filter isSockClose es)) maxReconnectAttempts]"
      using run_backoff [OF that(1,2,3)] that(4) by simp
    then have "drop (length (timers c)) (map fst (timers c')) =
          map (\<lambda>k. reconnectBaseDelay * 2 ^ k)
            [0 ..< min (length (filter isSockClose es)) maxReconnectAttempts]"
      by simp
    then show ?thesis by (simp add: delaysSince_def drop_map)
  qed
  show ?thesis
    using backoff step_counter [of e d d']
    by (auto simp: scheduleReconnect_attempts doConnect_def maxReconnectAttempts_def)
qed

text \<open>
  Eleven closes in a row from the opened client give the ten delays 1000, 2000, ...,
  512000 and no eleventh; and the open of the second socket, after one failed attempt,
  sets the counter from one back to zero.
\<close>

theorem reconnect_backoff_witness:
  "length (filter isSockClose elevenCloses) = 11
   \<and> delaysSince openedClient (the (run elevenCloses openedClient)) =
       [1000, 2000, 4000, 8000, 16000, 32000, 64000, 128000, 256000, 512000]
   \<and> reconnectAttempts (the (run [SockClose 0, TimerFire 0] openedClient)) = 1
   \<and> reconnectAttempts
         (the (step (SockOpen 1 True) (the (run [SockClose 0, TimerFire 0] openedClient)))) = 0"
proof -
  let ?c' = "the (run elevenCloses openedClient)"
  let ?d = "the (run [SockClose 0, TimerFire 0] openedClient)"
  let ?d' = "the (step (SockOpen 1 True) ?d)"
  note backoff = reconnect_backoff [where es = elevenCloses and c = openedClient and c' = ?c'
        and e = "SockOpen 1 True" and d = ?d and d' = ?d']
  have "run elevenCloses openedClient \<noteq> None"
    by (simp add: elevenCloses_def openedClient_def client_eval)
  then have r: "run elevenCloses openedClient = Some ?c'"
    by (rule option.collapse [symmetric])
  have a: "\<forall>e \<in> set elevenCloses. isCloseOrTimer e"
    by (simp add: elevenCloses_def)
  have f: "shouldReconnect openedClient" and g: "reconnectAttempts openedClient = 0"
    by (simp_all add: openedClient_def)
  have n: "length (filter isSockClose elevenCloses) = 11"
    by (simp add: elevenCloses_def)
  have l: "map (\<lambda>k. reconnectBaseDelay * 2 ^ k) [0 ..< min 11 maxReconnectAttempts] =
      [1000, 2000, 4000, 8000, 16000, 32000, 64000, 128000, 256000, 512000]"
    by (simp add: maxReconnectAttempts_def reconnectBaseDelay_def upt_conv_Cons)
  from r a f g have "run elevenCloses openedClient = Some ?c'
      \<and> (\<forall>e \<in> set elevenCloses. isCloseOrTimer e) \<and> shouldReconnect openedClient
      \<and> reconnectAttempts openedClient = 0"
    by (intro conjI)
  from backoff [THEN conjunct1, THEN mp, OF this, THEN conjunct1]
  have delays: "delaysSince openedClient ?c' =
      [1000, 2000, 4000, 8000, 16000, 32000, 64000, 128000, 256000, 512000]"
    by (simp only: n l)
  have d: "reconnectAttempts ?d = 1"
    by (simp add: openedClient_def client_eval)
  have "step (SockOpen 1 True) ?d \<noteq> None"
    by (simp add: openedClient_def client_eval)
  then have s: "step (SockOpen 1 True) ?d = Some ?d'"
    by (rule option.collapse [symmetric])
  have lt: "reconnectAttempts ?d' < reconnectAttempts ?d"
    by (simp add: openedClient_def client_eval)
  from s lt have "step (SockOpen 1 True) ?d = Some ?d' \<and> reconnectAttempts ?d' < reconnectAttempts ?d"
    by (intro conjI)
  from backoff [THEN conjunct2, THEN conjunct1, THEN mp, OF this, THEN conjunct2]
  have z: "reconnectAttempts ?d' = 0" .
  from n delays d z show ?thesis
    by (intro conjI)
qed

section \<open>Disconnecting\<close>

text \<open>
  What \<^verbatim>\<open>disconnectWebSocket\<close> achieves: it clears the flag, empties the timer slot
  and the socket slot, and cancels the timer that was in the slot. If every pending timer
  is the one in the slot, the client is quiet afterwards, and a quiet client stays quiet
  and constructs no socket and requests no timer, whatever events follow, until
  \<^verbatim>\<open>connectWebSocket\<close> is called. Disconnecting a disconnected client changes nothing.
\<close>

lemma nth_upd_at: "k < length xs \<Longrightarrow> upd_at i f xs ! k = (if k = i then f (xs ! k) else xs ! k)"
  by (simp add: upd_at_def)

lemma clearTimeout_nth:
  "k < length (timers c) \<Longrightarrow>
   snd (timers (clearTimeout t c) ! k) =
     (if k = t \<and> snd (timers c ! k) = Pending then Cancelled else snd (timers c ! k))"
  by (simp add: clearTimeout_def nth_upd_at case_prod_beta)

lemma clearTimeout_other [simp]:
  "length (timers (clearTimeout t c)) = length (timers c)"
  "shouldReconnect (clearTimeout t c) = shouldReconnect c"
  "sockets (clearTimeout t c) = sockets c"
  "ws (clearTimeout t c) = ws c"
  by (simp_all add: clearTimeout_def)

lemma disconnect_fields:
  "\<not> shouldReconnect (disconnectWebSocket c)"
  "reconnectTimer (disconnectWebSocket c) = None"
  "ws (disconnectWebSocket c) = None"
  "length (sockets (disconnectWebSocket c)) = length (sockets c)"
  "length (timers (disconnectWebSocket c)) = length (timers c)"
  by (simp_all add: disconnectWebSocket_def Let_def split: option.splits)

lemma disconnect_timers:
  assumes "k < length (timers c)"
  shows "snd (timers (disconnectWebSocket c) ! k) =
     (if reconnectTimer c = Some k \<and> snd (timers c ! k) = Pending then Cancelled
      else snd (timers c ! k))"
proof (cases "reconnectTimer c")
  case None
  then show ?thesis
    by (cases "ws c") (simp_all add: disconnectWebSocket_def Let_def)
next
  case (Some t)
  then show ?thesis using assms
    by (cases "ws c") (auto simp: disconnectWebSocket_def Let_def clearTimeout_nth)
qed

lemma disconnect_quiet:
  assumes "\<forall>t < length (timers c). snd (timers c ! t) = Pending \<longrightarrow> reconnectTimer c = Some t"
  shows "quiet (disconnectWebSocket c)"
  unfolding quiet_def
proof (intro conjI allI impI)
  show "\<not> shouldReconnect (disconnectWebSocket c)"
    by (rule disconnect_fields)
next
  fix t
  assume "t < length (timers (disconnectWebSocket c))"
  then have t: "t < length (timers c)"
    by (simp add: disconnect_fields)
  show "snd (timers (disconnectWebSocket c) ! t) \<noteq> Pending"
  proof (cases "snd (timers c ! t) = Pending")
    case True
    with assms t have "reconnectTimer c = Some t" by blast
    with True t show ?thesis by (simp add: disconnect_timers)
  next
    case False
    with t show ?thesis by (simp add: disconnect_timers)
  qed
qed

lemma quiet_sockets_update:
  "quiet (c\<lparr>sockets := ss\<rparr>) = quiet c"
  "quiet (c\<lparr>reconnectAttempts := n\<rparr>) = quiet c"
  by (simp_all add: quiet_def)

lemma step_quiet:
  assumes "step e c = Some c'" and "quiet c" and "\<not> isConnect e"
  shows "quiet c' \<and> length (sockets c') = length (sockets c) \<and> length (timers c') = length (timers c)"
proof (cases e)
  case Connect
  with assms(3) show ?thesis by simp
next
  case Disconnect
  with assms(1) have c': "c' = disconnectWebSocket c" by simp
  have "\<forall>t < length (timers c). snd (timers c ! t) = Pending \<longrightarrow> reconnectTimer c = Some t"
    using assms(2) by (simp add: quiet_def)
  then show ?thesis
    by (simp add: c' disconnect_quiet disconnect_fields)
next
  case (SockOpen i ok)
  with assms(1) have c': "c' = onOpen ok (c\<lparr>sockets := upd_at i (\<lambda>s. s\<lparr>open_fired := True\<rparr>) (sockets c)\<rparr>)"
    by (simp split: if_splits)
  show ?thesis using assms(2)
    by (cases "ws c") (simp_all add: c' onOpen_def quiet_def)
next
  case (SockClose i)
  with assms(1) have c': "c' = onClose (c\<lparr>sockets := upd_at i (\<lambda>s. s\<lparr>close_fired := True\<rparr>) (sockets c)\<rparr>)"
    by (simp split: if_splits)
  show ?thesis using assms(2)
    by (simp add: c' onClose_def quiet_def)
next
  case (SockError i)
  with assms(1) have "c' = c" by (simp split: if_splits)
  with assms(2) show ?thesis by simp
next
  case (TimerFire t)
  with assms(1) have "t < length (timers c)" and "snd (timers c ! t) = Pending"
    by (simp_all split: if_splits)
  with assms(2) show ?thesis by (simp add: quiet_def)
qed

lemma run_quiet:
  assumes "run es c = Some c'" and "quiet c" and "\<forall>e \<in> set es. \<not> isConnect e"
  shows "quiet c' \<and> length (sockets c') = length (sockets c) \<and> length (timers c') = length (timers c)"
  using assms
proof (induction es arbitrary: c)
  case Nil
  then show ?case by simp
next
  case (Cons e es)
  from Cons.prems(1) obtain d where d: "step e c = Some d" and r: "run es d = Some c'"
    by (auto split: option.splits)
  from step_quiet [OF d Cons.prems(2)] Cons.prems(3)
  have "quiet d \<and> length (sockets d) = length (sockets c) \<and> length (timers d) = length (timers c)"
    by simp
  with Cons.IH [OF r] Cons.prems(3) show ?case by simp
qed

lemma disconnect_twice: "disconnectWebSocket (disconnectWebSocket c) = disconnectWebSocket c"
  by (simp add: disconnectWebSocket_def clearTimeout_def Let_def split: option.splits)

text \<open>
  C5, at an input where the source departs from it. The client is connected, disconnected
  and connected again at once; then the close event of the first socket arrives, and the
  second socket closes too. Each close finds the flag armed and requests a timer, and only
  the later timer is in the timer slot. \<^verbatim>\<open>disconnectWebSocket\<close> cancels that one and
  clears the flag. The earlier timer is still pending; when it runs out, \<^verbatim>\<open>doConnect\<close>
  constructs a third socket, although \<^verbatim>\<open>connectWebSocket\<close> has not been called since
  the disconnect.
\<close>

theorem reconnect_after_disconnect:
  "run [Connect, Disconnect, Connect, SockClose 0, SockClose 1, Disconnect] newClient =
       Some \<lparr>ws = None, reconnectTimer = None, reconnectAttempts = 2, shouldReconnect = False,
         sockets = [\<lparr>open_fired = False, close_fired = True, close_called = True, frames_sent = 0\<rparr>,
                    \<lparr>open_fired = False, close_fired = True, close_called = True, frames_sent = 0\<rparr>],
         timers = [(1000, Pending), (2000, Cancelled)]\<rparr>
   \<and> run [Connect, Disconnect, Connect, SockClose 0, SockClose 1, Disconnect, TimerFire 0] newClient =
       Some \<lparr>ws = Some 2, reconnectTimer = None, reconnectAttempts = 2, shouldReconnect = False,
         sockets = [\<lparr>open_fired = False, close_fired = True, close_called = True, frames_sent = 0\<rparr>,
                    \<lparr>open_fired = False, close_fired = True, close_called = True, frames_sent = 0\<rparr>,
                    \<lparr>open_fired = False, close_fired = False, close_called = False, frames_sent = 0\<rparr>],
         timers = [(1000, Fired), (2000, Cancelled)]\<rparr>"
  by (simp add: newClient_def connectWebSocket_def doConnect_def newSocket_def
        disconnectWebSocket_def clearTimeout_def onClose_def scheduleReconnect_def upd_at_def
        maxReconnectAttempts_def reconnectBaseDelay_def Let_def)

end
